theory Spec2Isabelle
  imports Complex_Main
begin

section \<open>Kirchhoff-Love thin plate integrand (Linear/KirchhoffLovePlate.C)\<close>

text \<open>
  The integrand works on IEEE doubles; they are modelled as the real numbers, so every
  statement below is about exact arithmetic. Undefined behaviour of the C++ code (a
  null pointer that is dereferenced, an index outside a container) is a value of the
  type \<open>fault\<close>; a function that can reach it returns \<open>fault + 'a\<close>. A
  \<^verbatim>\<open>bool\<close> result of the source stays a \<open>bool\<close> next to the output arguments.
\<close>

subsection \<open>Data of the finite element library\<close>

type_synonym vec3 = "real \<times> real \<times> real"

type_synonym vector = "real list"

text \<open>A dense matrix with its two dimensions; entries are addressed from 1 as the
  source does (\<^verbatim>\<open>Bmat(1,i)\<close>).\<close>

record matrix =
  nrow :: nat
  ncol :: nat
  ent :: "nat \<Rightarrow> nat \<Rightarrow> real"

text \<open>The rank-3 array of second derivatives, \<^verbatim>\<open>d2NdX2(i,j,k)\<close> for node i.\<close>

record matrix3d =
  dim1 :: nat
  dim2 :: nat
  dim3 :: nat
  ent3 :: "nat \<Rightarrow> nat \<Rightarrow> nat \<Rightarrow> real"

datatype fault = NullDereference | IndexOutOfRange

text \<open>The solution modes the integrand distinguishes; every other enumerator of
  \<^verbatim>\<open>SIM::SolutionMode\<close> takes the \<^verbatim>\<open>default\<close> branches.\<close>

datatype SolutionMode = STATIC | VIBRATION | STIFF_ONLY | RHS_ONLY | RECOVERY | OTHER_MODE

text \<open>The material interface: \<^verbatim>\<open>evaluate(C,sigma,U,ip,X,F,eps,iop)\<close> with the tensor
  dimension of its dummy arguments, the point and the mode flag \<^verbatim>\<open>iop\<close> (1 forward,
  -1 inverse); \<open>None\<close> when it returns false.\<close>

record Material =
  evaluate :: "nat \<Rightarrow> vec3 \<Rightarrow> int \<Rightarrow> matrix option"
  getMassDensity :: "vec3 \<Rightarrow> real"

record kernel =
  nsd :: nat
  gravity :: real
  thickness :: real
  material :: "Material option"
  locSys :: "(vec3 \<Rightarrow> matrix) option"
  presFld :: "(vec3 \<Rightarrow> real) option"
  eK :: nat
  eM :: nat
  eS :: nat
  m_mode :: SolutionMode
  primsol :: "vector list"
  presVal :: "(vec3 \<times> vec3) list"

text \<open>Element matrices: \<^verbatim>\<open>ElmMats()\<close> starts with no matrices and vectors,
  \<^verbatim>\<open>rhsOnly = false\<close> and \<^verbatim>\<open>withLHS = true\<close>.\<close>

record ElmMats =
  A :: "matrix list"
  b :: "vector list"
  rhsOnly :: bool
  withLHS :: bool

definition zero_matrix :: "nat \<Rightarrow> nat \<Rightarrow> matrix" where
  "zero_matrix r c = \<lparr>nrow = r, ncol = c, ent = (\<lambda>i j. 0)\<rparr>"

definition new_ElmMats :: ElmMats where
  "new_ElmMats = \<lparr>A = [], b = [], rhsOnly = False, withLHS = True\<rparr>"

text \<open>\<^verbatim>\<open>std::vector::resize(n)\<close>: keep the first n elements, fill up with the default.\<close>

definition resize_vec :: "nat \<Rightarrow> 'a \<Rightarrow> 'a list \<Rightarrow> 'a list" where
  "resize_vec n dflt xs = take n xs @ replicate (n - length xs) dflt"

definition resize_em :: "nat \<Rightarrow> nat \<Rightarrow> ElmMats \<Rightarrow> ElmMats" where
  "resize_em nA nB e = e\<lparr>A := resize_vec nA (zero_matrix 0 0) (A e),
                         b := resize_vec nB [] (b e)\<rparr>"

text \<open>\<^verbatim>\<open>ElmMats::redim(n)\<close>: every matrix becomes n by n, every vector gets length n.\<close>

definition redim :: "nat \<Rightarrow> ElmMats \<Rightarrow> ElmMats" where
  "redim n e = e\<lparr>A := map (\<lambda>M. zero_matrix n n) (A e),
                 b := map (\<lambda>v. resize_vec n 0 v) (b e)\<rparr>"

subsection \<open>Mode setting and allocation of the local integral\<close>

definition setMode :: "SolutionMode \<Rightarrow> kernel \<Rightarrow> kernel" where
  "setMode mode k =
     (let k1 = k\<lparr>m_mode := mode, eM := 0, eK := 0, eS := 0\<rparr>;
          k2 = k1\<lparr>primsol := (if mode = RECOVERY then resize_vec 1 [] (primsol k1) else [])\<rparr>
      in case mode of
           STATIC \<Rightarrow> k2\<lparr>eK := 1, eS := 1\<rparr>
         | VIBRATION \<Rightarrow> k2\<lparr>eK := 1, eM := 2\<rparr>
         | STIFF_ONLY \<Rightarrow> k2\<lparr>eK := 1\<rparr>
         | RHS_ONLY \<Rightarrow> k2\<lparr>eS := 1\<rparr>
         | _ \<Rightarrow> k2)"

text \<open>The \<^verbatim>\<open>RHS_ONLY\<close> case has no \<^verbatim>\<open>break\<close>: it runs on into the
  \<^verbatim>\<open>RECOVERY\<close> case.\<close>

definition getLocalIntegral :: "kernel \<Rightarrow> nat \<Rightarrow> bool \<Rightarrow> ElmMats" where
  "getLocalIntegral k nen neumann =
     (let result = new_ElmMats;
          result1 =
            (case m_mode k of
               STATIC \<Rightarrow>
                 resize_em (if neumann then 0 else 1) 1
                   (result\<lparr>rhsOnly := neumann, withLHS := \<not> neumann\<rparr>)
             | VIBRATION \<Rightarrow> resize_em 2 0 result
             | STIFF_ONLY \<Rightarrow> resize_em 1 0 result
             | RHS_ONLY \<Rightarrow>
                 (resize_em (if neumann then 0 else 1) 1 result)
                   \<lparr>rhsOnly := True, withLHS := False\<rparr>
             | RECOVERY \<Rightarrow> result\<lparr>rhsOnly := True, withLHS := False\<rparr>
             | OTHER_MODE \<Rightarrow> result)
      in redim nen result1)"

subsection \<open>Matrix and vector operations of the library\<close>

text \<open>Sequencing: the first fault ends the computation.\<close>

definition bindF :: "fault + 'a \<Rightarrow> ('a \<Rightarrow> fault + 'b) \<Rightarrow> fault + 'b" where
  "bindF x f = (case x of Inl e \<Rightarrow> Inl e | Inr v \<Rightarrow> f v)"

text \<open>Element access with the index checked: outside the dimensions the C++ access is
  undefined.\<close>

definition put :: "matrix \<Rightarrow> nat \<Rightarrow> nat \<Rightarrow> real \<Rightarrow> fault + matrix" where
  "put M r c v =
     (if 1 \<le> r \<and> r \<le> nrow M \<and> 1 \<le> c \<and> c \<le> ncol M
      then Inr (M\<lparr>ent := (\<lambda>i j. if i = r \<and> j = c then v else ent M i j)\<rparr>)
      else Inl IndexOutOfRange)"

definition get3 :: "matrix3d \<Rightarrow> nat \<Rightarrow> nat \<Rightarrow> nat \<Rightarrow> fault + real" where
  "get3 d i j l =
     (if 1 \<le> i \<and> i \<le> dim1 d \<and> 1 \<le> j \<and> j \<le> dim2 d \<and> 1 \<le> l \<and> l \<le> dim3 d
      then Inr (ent3 d i j l)
      else Inl IndexOutOfRange)"

text \<open>\<^verbatim>\<open>C.multiply(alpha)\<close>: scale every entry.\<close>

definition scale :: "real \<Rightarrow> matrix \<Rightarrow> matrix" where
  "scale a M = M\<lparr>ent := (\<lambda>i j. a * ent M i j)\<rparr>"

text \<open>\<^verbatim>\<open>A.multiply(X,Y)\<close>: fails unless X has as many entries as A has columns;
  otherwise Y gets one entry for each row of A.\<close>

definition multiply :: "matrix \<Rightarrow> vector \<Rightarrow> vector option" where
  "multiply M x =
     (if length x = ncol M
      then Some (map (\<lambda>r. \<Sum>c = 1..ncol M. ent M r c * x ! (c - 1)) [1..<Suc (nrow M)])
      else None)"

text \<open>\<^verbatim>\<open>A*X\<close>: the product, or the empty vector when \<^verbatim>\<open>multiply\<close> fails.\<close>

definition mtimes :: "matrix \<Rightarrow> vector \<Rightarrow> vector" where
  "mtimes M x = (case multiply M x of None \<Rightarrow> [] | Some y \<Rightarrow> y)"



text \<open>\<^verbatim>\<open>Y.add(X,alfa)\<close>: \<open>Y += alfa*X\<close> over the entries both vectors have.\<close>

fun vadd :: "vector \<Rightarrow> vector \<Rightarrow> real \<Rightarrow> vector" where
  "vadd (y # ys) (x # xs) a = (y + a * x) # vadd ys xs a"
| "vadd ys [] a = ys"
| "vadd [] xs a = []"

text \<open>\<^verbatim>\<open>X - Y\<close> is a copy of X to which \<open>-Y\<close> is added.\<close>

definition vsub :: "vector \<Rightarrow> vector \<Rightarrow> vector" where
  "vsub x y = vadd x y (- 1)"

text \<open>\<^verbatim>\<open>X.dot(Y,off,inc)\<close>: the entries \<open>off, off+inc, ...\<close> of X against the
  leading entries of Y.\<close>

definition dot :: "vector \<Rightarrow> vector \<Rightarrow> nat \<Rightarrow> nat \<Rightarrow> real" where
  "dot x y off inc =
     (let n1 = (if inc > 1 then length x div inc else length x - off);
          n = min n1 (length y)
      in \<Sum>l < n. x ! (off + l * inc) * y ! l)"

subsection \<open>The integrand\<close>

definition nstrc :: "kernel \<Rightarrow> nat" where
  "nstrc k = nsd k * (nsd k + 1) div 2"

text \<open>\<^verbatim>\<open>printLog\<close>: with no material set, the address of a function-local static
  \<^verbatim>\<open>LinIsotropic defaultMat\<close> is stored in the integrand. The class
  \<^verbatim>\<open>LinIsotropic\<close> is not part of the sources at hand, so the default material is
  a parameter.\<close>

definition printLog :: "Material \<Rightarrow> kernel \<Rightarrow> kernel" where
  "printLog defaultMat k =
     (case material k of None \<Rightarrow> k\<lparr>material := Some defaultMat\<rparr> | Some m \<Rightarrow> k)"

definition getPressure :: "kernel \<Rightarrow> vec3 \<Rightarrow> fault + real" where
  "getPressure k X =
     (case material k of
        None \<Rightarrow> Inl NullDereference
      | Some m \<Rightarrow>
          (let p = getMassDensity m X * gravity k * thickness k
           in Inr (case presFld k of None \<Rightarrow> p | Some f \<Rightarrow> p + f X)))"

definition haveLoads :: "kernel \<Rightarrow> bool" where
  "haveLoads k =
     (case presFld k of
        Some f \<Rightarrow> True
      | None \<Rightarrow>
          if gravity k \<noteq> 0
          then (case material k of
                  Some m \<Rightarrow> getMassDensity m (0, 0, 0) \<noteq> 0
                | None \<Rightarrow> False)
          else False)"

definition initIntegration :: "nat \<Rightarrow> kernel \<Rightarrow> kernel" where
  "initIntegration nGp k =
     k\<lparr>presVal := resize_vec nGp ((0, 0, 0), (0, 0, 0)) (presVal k)\<rparr>"

text \<open>One pass of the loop over the nodes in \<^verbatim>\<open>formBmatrix\<close>.\<close>

definition Bbody :: "kernel \<Rightarrow> matrix3d \<Rightarrow> nat \<Rightarrow> matrix \<Rightarrow> fault + matrix" where
  "Bbody k d i Bm =
     (if nsd k = 1 then
        bindF (get3 d i 1 1) (\<lambda>v. put Bm 1 i v)
      else
        bindF (get3 d i 1 1) (\<lambda>v1.
        bindF (put Bm 1 i v1) (\<lambda>B1.
        bindF (get3 d i 2 2) (\<lambda>v2.
        bindF (put B1 2 i v2) (\<lambda>B2.
        bindF (get3 d i 1 2) (\<lambda>v3.
        put B2 3 i (v3 * 2)))))))"

fun Bloop :: "kernel \<Rightarrow> matrix3d \<Rightarrow> nat list \<Rightarrow> matrix \<Rightarrow> fault + matrix" where
  "Bloop k d [] Bm = Inr Bm"
| "Bloop k d (i # is) Bm = bindF (Bbody k d i Bm) (Bloop k d is)"

text \<open>\<^verbatim>\<open>formBmatrix(Bmat,d2NdX2)\<close>: the matrix argument is resized and cleared before
  the dimensions of the array are checked. The result is the returned flag with the
  matrix argument as the call leaves it.\<close>

definition formBmatrix :: "kernel \<Rightarrow> matrix \<Rightarrow> matrix3d \<Rightarrow> fault + (bool \<times> matrix)" where
  "formBmatrix k Bmat d =
     (let nenod = dim1 d;
          B0 = zero_matrix (nstrc k) nenod
      in if dim2 d \<noteq> nsd k \<or> dim3 d \<noteq> nsd k then Inr (False, B0)
         else bindF (Bloop k d [1..<Suc nenod] B0) (\<lambda>B1. Inr (True, B1)))"

text \<open>\<^verbatim>\<open>formCmatrix(C,X,invers)\<close>: \<open>Inr None\<close> when the material's evaluation
  returns false, else the scaled matrix.\<close>

definition formCmatrix :: "kernel \<Rightarrow> vec3 \<Rightarrow> bool \<Rightarrow> fault + matrix option" where
  "formCmatrix k X invers =
     (case material k of
        None \<Rightarrow> Inl NullDereference
      | Some m \<Rightarrow>
          (case evaluate m (nsd k) X (if invers then - 1 else 1) of
             None \<Rightarrow> Inr None
           | Some C \<Rightarrow>
               (let factor = thickness k * thickness k * thickness k / 12
                in Inr (Some (scale (if invers then 1 / factor else factor) C)))))"

text \<open>\<^verbatim>\<open>EM.outer_product(N,Y,true)\<close> adds the outer product to a matrix of matching
  dimensions and leaves any other matrix alone.\<close>

definition outer_product_add :: "matrix \<Rightarrow> vector \<Rightarrow> vector \<Rightarrow> matrix" where
  "outer_product_add EM x y =
     (if length x = nrow EM \<and> length y = ncol EM
      then EM\<lparr>ent := (\<lambda>i j. if 1 \<le> i \<and> i \<le> nrow EM \<and> 1 \<le> j \<and> j \<le> ncol EM
                            then ent EM i j + x ! (i - 1) * y ! (j - 1) else ent EM i j)\<rparr>
      else EM)"

definition formMassMatrix :: "kernel \<Rightarrow> matrix \<Rightarrow> vector \<Rightarrow> vec3 \<Rightarrow> real \<Rightarrow> fault + matrix" where
  "formMassMatrix k EM Nv X detJW =
     (case material k of
        None \<Rightarrow> Inl NullDereference
      | Some m \<Rightarrow>
          (let rho = getMassDensity m X * thickness k
           in if rho \<noteq> 0
              then Inr (outer_product_add EM Nv (map (\<lambda>x. x * rho * detJW) Nv))
              else Inr EM))"

text \<open>\<^verbatim>\<open>formBodyForce(ES,N,iP,X,detJW)\<close> changes the load vector and the mutable
  buffer \<^verbatim>\<open>presVal\<close> of the integrand: both are returned.\<close>

definition formBodyForce ::
  "kernel \<Rightarrow> vector \<Rightarrow> vector \<Rightarrow> nat \<Rightarrow> vec3 \<Rightarrow> real \<Rightarrow> fault + (vector \<times> kernel)" where
  "formBodyForce k ES Nv iP X detJW =
     bindF (getPressure k X) (\<lambda>p.
       if p \<noteq> 0
       then Inr (vadd ES Nv (p * detJW),
                 if iP < length (presVal k)
                 then k\<lparr>presVal := list_update (presVal k) iP (X, (0, 0, p))\<rparr>
                 else k)
       else Inr (ES, k))"

text \<open>\<^verbatim>\<open>evalSol(s,eV,d2NdX2,X,toLocal)\<close>. The congruence transformation
  \<^verbatim>\<open>SymmTensor::transform\<close> belongs to the library and is the parameter \<open>transform\<close>.
  The result is the returned flag with the vector argument \<open>s\<close>.\<close>

definition evalSol ::
  "(matrix \<Rightarrow> vector \<Rightarrow> vector) \<Rightarrow> kernel \<Rightarrow> vector \<Rightarrow> vector \<Rightarrow> matrix3d \<Rightarrow> vec3 \<Rightarrow> bool
     \<Rightarrow> fault + (bool \<times> vector)" where
  "evalSol transform k s eV d X toLocal =
     (if eV = [] then Inr (False, s)
      else if length eV \<noteq> dim1 d then Inr (False, s)
      else
        bindF (formBmatrix k (zero_matrix 0 0) d) (\<lambda>(okB, Bmat).
          if \<not> okB then Inr (False, s)
          else
            bindF (formCmatrix k X False) (\<lambda>okC.
              case okC of
                None \<Rightarrow> Inr (False, s)
              | Some Cmat \<Rightarrow>
                  (case multiply Bmat eV of
                     None \<Rightarrow> Inr (False, s)
                   | Some kappa \<Rightarrow>
                       (case multiply Cmat (map (\<lambda>x. - 1 * x) kappa) of
                          None \<Rightarrow> Inr (False, s)
                        | Some m \<Rightarrow>
                            Inr (True,
                                 if toLocal
                                 then (case locSys k of
                                         None \<Rightarrow> m
                                       | Some ls \<Rightarrow> transform (ls X) m)
                                 else m))))))"

definition getNoFields :: "kernel \<Rightarrow> int \<Rightarrow> nat" where
  "getNoFields k fld = (if fld < 2 then 1 else nsd k * (nsd k + 1) div 2)"

subsection \<open>The norm integrand\<close>

record FiniteElement =
  N :: vector
  d2NdX2 :: matrix3d
  detJxW :: real
  iGP :: nat

text \<open>An element norm object: the element solution vectors \<^verbatim>\<open>vec\<close>, the projected
  solutions \<^verbatim>\<open>psol\<close> and the norm slots \<^verbatim>\<open>pnorm[i]\<close>.\<close>

record ElmNorm =
  vec :: "vector list"
  psol :: "vector list"
  buf :: "real list"

record KirchhoffLovePlateNorm =
  myProblem :: kernel
  anasol :: "(vec3 \<Rightarrow> vector) option"
  nrcmp :: nat

definition newNorm :: "kernel \<Rightarrow> (vec3 \<Rightarrow> vector) option \<Rightarrow> KirchhoffLovePlateNorm" where
  "newNorm p a = \<lparr>myProblem = p, anasol = a, nrcmp = getNoFields p 2\<rparr>"

text \<open>\<^verbatim>\<open>pnorm[i] += v\<close>, undefined outside the slots.\<close>

definition padd :: "real list \<Rightarrow> nat \<Rightarrow> real \<Rightarrow> fault + real list" where
  "padd p i v = (if i < length p then Inr (p[i := p ! i + v]) else Inl IndexOutOfRange)"

text \<open>The projected stress resultants at the point: \<^verbatim>\<open>Vector mr(mh.size())\<close> with
  the components \<open>0 .. nrcmp-1\<close> assigned.\<close>

definition projected :: "vector \<Rightarrow> vector \<Rightarrow> nat \<Rightarrow> nat \<Rightarrow> vector" where
  "projected ps Nv nr n = map (\<lambda>j. dot ps Nv j nr) [0..<nr] @ replicate (n - nr) 0"

text \<open>The loop over the projected solutions in \<^verbatim>\<open>evalInt\<close>, with the running slot
  index \<open>ip\<close>. \<open>manal\<close> is the analytical stress resultant at the point, if there is an
  analytical solution.\<close>

fun psol_loop ::
  "matrix \<Rightarrow> vector \<Rightarrow> vector option \<Rightarrow> vector \<Rightarrow> real \<Rightarrow> nat \<Rightarrow> vector list \<Rightarrow> nat \<Rightarrow> real list
     \<Rightarrow> fault + real list" where
  "psol_loop Cinv mh manal Nv w nr [] ip p = Inr p"
| "psol_loop Cinv mh manal Nv w nr (ps # rest) ip p =
     (if ps = [] then psol_loop Cinv mh manal Nv w nr rest ip p
      else if length mh < nr then Inl IndexOutOfRange
      else
        (let mr = projected ps Nv nr (length mh);
             error = vsub mr mh
         in bindF (padd p ip (dot mr (mtimes Cinv mr) 0 1 * w)) (\<lambda>p1.
            bindF (padd p1 (ip + 1) (dot error (mtimes Cinv error) 0 1 * w)) (\<lambda>p2.
            bindF (padd p2 (ip + 2) (dot mr mr 0 1 * w)) (\<lambda>p3.
            bindF (padd p3 (ip + 3) (dot error error 0 1 * w)) (\<lambda>p4.
              case manal of
                None \<Rightarrow> psol_loop Cinv mh manal Nv w nr rest (ip + 4) p4
              | Some m \<Rightarrow>
                  (let error1 = vsub m mr
                   in bindF (padd p4 (ip + 4) (dot error1 (mtimes Cinv error1) 0 1 * w)) (\<lambda>p5.
                        psol_loop Cinv mh manal Nv w nr rest (ip + 6) p5))))))))"

text \<open>\<^verbatim>\<open>KirchhoffLovePlateNorm::evalInt\<close>. \<^verbatim>\<open>pnorm.vec.front()\<close> on an empty
  \<^verbatim>\<open>vec\<close> is undefined; the call of \<^verbatim>\<open>evalSol\<close> leaves \<^verbatim>\<open>toLocal\<close> at its
  default, false. The result is the returned flag with the norm slots.\<close>

definition evalInt_norm ::
  "(matrix \<Rightarrow> vector \<Rightarrow> vector) \<Rightarrow> KirchhoffLovePlateNorm \<Rightarrow> ElmNorm \<Rightarrow> FiniteElement \<Rightarrow> vec3
     \<Rightarrow> fault + (bool \<times> real list)" where
  "evalInt_norm transform nrm pnorm fe X =
     (let problem = myProblem nrm in
      bindF (formCmatrix problem X True) (\<lambda>okC.
        case okC of
          None \<Rightarrow> Inr (False, buf pnorm)
        | Some Cinv \<Rightarrow>
            (case vec pnorm of
               [] \<Rightarrow> Inl IndexOutOfRange
             | eV # vs \<Rightarrow>
                 bindF (evalSol transform problem [] eV (d2NdX2 fe) X False) (\<lambda>(ok, mh).
                   if \<not> ok then Inr (False, buf pnorm)
                   else
                     bindF (padd (buf pnorm) 0 (dot mh (mtimes Cinv mh) 0 1 * detJxW fe)) (\<lambda>p1.
                     bindF (if haveLoads problem
                            then bindF (getPressure problem X) (\<lambda>p.
                                   padd p1 1 (p * dot eV (N fe) 0 1 * detJxW fe))
                            else Inr p1) (\<lambda>p2.
                       case anasol nrm of
                         None \<Rightarrow>
                           bindF (psol_loop Cinv mh None (N fe) (detJxW fe) (nrcmp nrm)
                                    (psol pnorm) 2 p2) (\<lambda>p5. Inr (True, p5))
                       | Some a \<Rightarrow>
                           (let m = a X; error = vsub m mh
                            in bindF (padd p2 2 (dot m (mtimes Cinv m) 0 1 * detJxW fe)) (\<lambda>p3.
                               bindF (padd p3 3
                                        (dot error (mtimes Cinv error) 0 1 * detJxW fe)) (\<lambda>p4.
                               bindF (psol_loop Cinv mh (Some m) (N fe) (detJxW fe)
                                        (nrcmp nrm) (psol pnorm) 4 p4) (\<lambda>p5.
                                 Inr (True, p5)))))))))))"

text \<open>The loop of \<^verbatim>\<open>finalizeElement\<close>:
  \<^verbatim>\<open>for (ip = 9; ip < pnorm.size(); ip += 6) pnorm[ip] = sqrt(pnorm[ip-4]/pnorm[3])\<close>.\<close>

function finalize_loop :: "nat \<Rightarrow> real list \<Rightarrow> real list" where
  "finalize_loop ip p =
     (if ip < length p
      then finalize_loop (ip + 6) (p[ip := sqrt (p ! (ip - 4) / p ! 3)])
      else p)"
  by pat_completeness auto
termination
  by (relation "measure (\<lambda>(ip, p). length p - ip)") auto

declare finalize_loop.simps [simp del]

definition finalizeElement :: "KirchhoffLovePlateNorm \<Rightarrow> real list \<Rightarrow> real list" where
  "finalizeElement nrm p =
     (case anasol nrm of None \<Rightarrow> p | Some a \<Rightarrow> finalize_loop 9 p)"

subsection \<open>Reference definitions and concrete data\<close>

text \<open>The constructor \<^verbatim>\<open>KirchhoffLovePlate(n)\<close>; the base class starts in a mode
  that is none of the five above.\<close>

definition KirchhoffLovePlate :: "nat \<Rightarrow> kernel" where
  "KirchhoffLovePlate n =
     \<lparr>nsd = n, gravity = 0, thickness = 1 / 10, material = None, locSys = None,
      presFld = None, eK = 0, eM = 0, eS = 0, m_mode = OTHER_MODE, primsol = [],
      presVal = []\<rparr>"

text \<open>The allocation table as the specification words it, as (number of matrices, number
  of load vectors) for a mode and the pure-load flag of the request: for \<^verbatim>\<open>RHS_ONLY\<close>
  it reads "no stiffness matrix, or 1 if pure-load request".\<close>

definition spec_allocation :: "SolutionMode \<Rightarrow> bool \<Rightarrow> nat \<times> nat" where
  "spec_allocation mode neumann =
     (case mode of
        STATIC \<Rightarrow> (if neumann then 0 else 1, 1)
      | VIBRATION \<Rightarrow> (2, 0)
      | STIFF_ONLY \<Rightarrow> (1, 0)
      | RHS_ONLY \<Rightarrow> (if neumann then 1 else 0, 1)
      | RECOVERY \<Rightarrow> (0, 0)
      | OTHER_MODE \<Rightarrow> (0, 0))"

text \<open>What \<^verbatim>\<open>getLocalIntegral\<close> allocates: (number of matrices, number of vectors).\<close>

definition allocation :: "ElmMats \<Rightarrow> nat \<times> nat" where
  "allocation e = (length (A e), length (b e))"

text \<open>The rows of the curvature operator as the specification gives them: row 1 is
  \<open>d2N/dx2\<close>, row 2 is \<open>d2N/dy2\<close>, row 3 is \<open>2 d2N/dxdy\<close>.\<close>

definition curvature_entry :: "matrix3d \<Rightarrow> nat \<Rightarrow> nat \<Rightarrow> real" where
  "curvature_entry d r i =
     (if r = 1 then ent3 d i 1 1 else if r = 2 then ent3 d i 2 2 else 2 * ent3 d i 1 2)"

text \<open>A matrix written as the list of its rows.\<close>

definition of_rows :: "real list list \<Rightarrow> matrix" where
  "of_rows rs =
     \<lparr>nrow = length rs, ncol = (case rs of [] \<Rightarrow> 0 | r # _ \<Rightarrow> length r),
      ent = (\<lambda>i j. rs ! (i - 1) ! (j - 1))\<rparr>"

text \<open>A plane-stress isotropic material with \<open>E = 1000\<close> and \<open>nu = 3/10\<close>, of
  density 1: the constitutive matrix and its inverse.\<close>

definition sample_material :: Material where
  "sample_material =
     \<lparr>evaluate = (\<lambda>n X iop.
        if n \<noteq> 2 then None
        else if iop < 0
        then Some (of_rows [[1 / 1000, - 3 / 10000, 0],
                            [- 3 / 10000, 1 / 1000, 0],
                            [0, 0, 13 / 5000]])
        else Some (of_rows [[100000 / 91, 30000 / 91, 0],
                            [30000 / 91, 100000 / 91, 0],
                            [0, 0, 5000 / 13]])),
      getMassDensity = (\<lambda>X. 1)\<rparr>"

text \<open>The second derivatives of the nine biquadratic Bernstein functions of the unit
  square at its midpoint, the first index running fastest, and the control values of the
  field \<open>w = x\<^sup>2\<close>.\<close>

definition bernstein_d2 :: matrix3d where
  "bernstein_d2 =
     \<lparr>dim1 = 9, dim2 = 2, dim3 = 2,
      ent3 = (\<lambda>i j l.
        if j = 1 \<and> l = 1 then [1 / 2, - 1, 1 / 2, 1, - 2, 1, 1 / 2, - 1, 1 / 2] ! (i - 1)
        else if j = 2 \<and> l = 2 then [1 / 2, 1, 1 / 2, - 1, - 2, - 1, 1 / 2, 1, 1 / 2] ! (i - 1)
        else [1, 0, - 1, 0, 0, 0, - 1, 0, 1] ! (i - 1))\<rparr>"

definition w_x2 :: vector where
  "w_x2 = [0, 0, 1, 0, 0, 1, 0, 0, 1]"

text \<open>A plate of dimension 2 with the sample material set.\<close>

definition sample_plate :: kernel where
  "sample_plate = (KirchhoffLovePlate 2)\<lparr>material := Some sample_material\<rparr>"


text \<open>The loads query as the specification words it: a pressure field that is not zero
  is set, or gravity is not zero and the material has a density that is not zero at the
  reference point.\<close>

definition haveLoads_spec :: "kernel \<Rightarrow> bool" where
  "haveLoads_spec k \<longleftrightarrow>
     (\<exists>f. presFld k = Some f \<and> (\<exists>X. f X \<noteq> 0)) \<or>
     (gravity k \<noteq> 0 \<and> (\<exists>m. material k = Some m \<and> getMassDensity m (0, 0, 0) \<noteq> 0))"

text \<open>A plate with a pressure function that is zero everywhere (the input
  \<^verbatim>\<open>PRESSURE\<close> with the value 0), and the sample plate under gravity.\<close>

definition zero_pressure_plate :: kernel where
  "zero_pressure_plate = (KirchhoffLovePlate 2)\<lparr>presFld := Some (\<lambda>X. 0)\<rparr>"

definition heavy_plate :: kernel where
  "heavy_plate = sample_plate\<lparr>gravity := 1\<rparr>"

text \<open>The pressure sample stored for a quadrature point, if the buffer has that point.\<close>

definition sample_at :: "kernel \<Rightarrow> nat \<Rightarrow> (vec3 \<times> vec3) option" where
  "sample_at k i = (if i < length (presVal k) then Some (presVal k ! i) else None)"

text \<open>Data for one quadrature point of the norm integrand: the nine Bernstein functions
  at the midpoint, a projected solution with the same stress resultants at every node, an
  analytical solution, and ten norm slots of which the last holds 7.\<close>

definition sample_N :: vector where
  "sample_N = [1 / 16, 1 / 8, 1 / 16, 1 / 8, 1 / 4, 1 / 8, 1 / 16, 1 / 8, 1 / 16]"

definition sample_psol :: vector where
  "sample_psol = concat (replicate 9 [- 1 / 5, - 1 / 20, 0])"

definition sample_norm :: KirchhoffLovePlateNorm where
  "sample_norm = newNorm sample_plate (Some (\<lambda>X. [- 1 / 5, - 1 / 10, 0]))"

definition sample_fe :: FiniteElement where
  "sample_fe = \<lparr>N = sample_N, d2NdX2 = bernstein_d2, detJxW = 1, iGP = 0\<rparr>"

definition sample_elmnorm :: ElmNorm where
  "sample_elmnorm =
     \<lparr>vec = [w_x2], psol = [sample_psol], buf = [0, 0, 0, 0, 0, 0, 0, 0, 0, 7]\<rparr>"

text \<open>The norm slots after \<^verbatim>\<open>evalInt\<close> at that point.\<close>

definition sample_slots :: "real list" where
  "sample_slots =
     [100 / 273, 0, 57 / 125, 761 / 34125, 219 / 500, 587 / 136500,
      17 / 400, 9193 / 29811600, 3 / 100, 7]"

text \<open>The magnitudes of the normal IEEE doubles. An operation on doubles whose exact
  result lies among them neither underflows nor overflows.\<close>

definition dbl_min :: real where
  "dbl_min = 1 / 2 ^ 1022"

definition dbl_max :: real where
  "dbl_max = (2 - 1 / 2 ^ 52) * 2 ^ 1023"

definition normal_double :: "real \<Rightarrow> bool" where
  "normal_double x \<longleftrightarrow> dbl_min \<le> \<bar>x\<bar> \<and> \<bar>x\<bar> \<le> dbl_max"

text \<open>The arithmetic of \<^verbatim>\<open>formCmatrix\<close> stays within the normal doubles: the
  products \<^verbatim>\<open>thickness*thickness*thickness\<close>, the factor, its reciprocal, and every
  entry scaled by them that is not zero.\<close>

definition scaled_in_range :: "real \<Rightarrow> matrix \<Rightarrow> bool" where
  "scaled_in_range a M \<longleftrightarrow>
     (\<forall>i \<in> {1..nrow M}. \<forall>j \<in> {1..ncol M}. ent M i j = 0 \<or> normal_double (a * ent M i j))"

definition formCmatrix_in_range :: "real \<Rightarrow> matrix \<Rightarrow> matrix \<Rightarrow> bool" where
  "formCmatrix_in_range t Cf Ci \<longleftrightarrow>
     normal_double (t * t) \<and> normal_double (t * t * t) \<and>
     normal_double (t * t * t / 12) \<and> normal_double (1 / (t * t * t / 12)) \<and>
     scaled_in_range (t * t * t / 12) Cf \<and> scaled_in_range (1 / (t * t * t / 12)) Ci"



section \<open>Properties\<close>

lemma bindF_Inr [simp]: "bindF (Inr v) f = f v"
  by (simp add: bindF_def)

lemma bindF_Inl [simp]: "bindF (Inl e) f = Inl e"
  by (simp add: bindF_def)

lemma setMode_mode: "m_mode (setMode mode k) = mode"
  by (cases mode) (simp_all add: setMode_def Let_def)

subsection \<open>Allocation by mode\<close>

text \<open>
  C4, as the code has it. After \<^verbatim>\<open>setMode\<close>, \<^verbatim>\<open>getLocalIntegral\<close> allocates:
  under \<^verbatim>\<open>STATIC\<close> with a pure-load (Neumann) request no matrix and one load vector;
  under \<^verbatim>\<open>VIBRATION\<close> two matrices and no load vector; under \<^verbatim>\<open>RHS_ONLY\<close> one load
  vector and one matrix, except for a pure-load request, which gets no matrix; under
  \<^verbatim>\<open>RECOVERY\<close> nothing, while \<^verbatim>\<open>setMode\<close> resizes the primary solution store to one
  vector. The slot indices \<^verbatim>\<open>eK\<close>, \<^verbatim>\<open>eM\<close>, \<^verbatim>\<open>eS\<close> follow the mode.
\<close>

theorem allocation_by_mode:
  "allocation (getLocalIntegral (setMode STATIC k) nen True) = (0, 1) \<and>
   allocation (getLocalIntegral (setMode VIBRATION k) nen neumann) = (2, 0) \<and>
   allocation (getLocalIntegral (setMode RHS_ONLY k) nen neumann) =
     (if neumann then 0 else 1, 1) \<and>
   allocation (getLocalIntegral (setMode RECOVERY k) nen neumann) = (0, 0) \<and>
   length (primsol (setMode RECOVERY k)) = 1 \<and>
   (eK (setMode STATIC k), eM (setMode STATIC k), eS (setMode STATIC k)) = (1, 0, 1) \<and>
   (eK (setMode VIBRATION k), eM (setMode VIBRATION k), eS (setMode VIBRATION k)) = (1, 2, 0) \<and>
   (eK (setMode RHS_ONLY k), eM (setMode RHS_ONLY k), eS (setMode RHS_ONLY k)) = (0, 0, 1) \<and>
   (eK (setMode RECOVERY k), eM (setMode RECOVERY k), eS (setMode RECOVERY k)) = (0, 0, 0)"
  by (simp add: allocation_def setMode_def getLocalIntegral_def Let_def redim_def
      resize_em_def new_ElmMats_def resize_vec_def)

text \<open>The table of the specification fails for \<^verbatim>\<open>RHS_ONLY\<close>: a request that is not a
  pure-load request gets one matrix, where the table has none.\<close>

theorem allocation_RHS_ONLY_counterexample:
  "allocation (getLocalIntegral (setMode RHS_ONLY (KirchhoffLovePlate 2)) 4 False)
     \<noteq> spec_allocation RHS_ONLY False"
  by (simp add: allocation_def spec_allocation_def setMode_def getLocalIntegral_def Let_def
      redim_def resize_em_def new_ElmMats_def resize_vec_def)

text \<open>
  C9. Under \<^verbatim>\<open>RHS_ONLY\<close>, for every node count and both kinds of request, the local
  integral is marked \<^verbatim>\<open>rhsOnly = true\<close> and \<^verbatim>\<open>withLHS = false\<close>, the marking of the
  \<^verbatim>\<open>RECOVERY\<close> case into which the \<^verbatim>\<open>RHS_ONLY\<close> case runs on.
\<close>

theorem RHS_ONLY_falls_through:
  "rhsOnly (getLocalIntegral (setMode RHS_ONLY k) nen neumann) = True \<and>
   withLHS (getLocalIntegral (setMode RHS_ONLY k) nen neumann) = False \<and>
   rhsOnly (getLocalIntegral (setMode RECOVERY k) nen neumann) = True \<and>
   withLHS (getLocalIntegral (setMode RECOVERY k) nen neumann) = False"
  by (simp add: setMode_mode getLocalIntegral_def Let_def redim_def resize_em_def
      new_ElmMats_def)

subsection \<open>The curvature operator\<close>

lemma nstrc_1: "nsd k = 1 \<Longrightarrow> nstrc k = 1"
  by (simp add: nstrc_def)

lemma nstrc_2: "nsd k = 2 \<Longrightarrow> nstrc k = 3"
  by (simp add: nstrc_def)

lemma Bbody_result:
  assumes "nsd k = 1 \<or> nsd k = 2" "dim2 d = nsd k" "dim3 d = nsd k"
    and "1 \<le> i" "i \<le> dim1 d" "nrow Bm = nstrc k" "ncol Bm = dim1 d"
  shows "Bbody k d i Bm =
           Inr (Bm\<lparr>ent := (\<lambda>r c. if c = i \<and> 1 \<le> r \<and> r \<le> nstrc k
                                  then curvature_entry d r c else ent Bm r c)\<rparr>)"
proof -
  consider (one) "nsd k = 1" | (two) "nsd k = 2" using assms(1) by blast
  then show ?thesis
  proof cases
    case one
    then show ?thesis using assms
      by (auto simp: Bbody_def get3_def put_def nstrc_1 curvature_entry_def fun_eq_iff)
  next
    case two
    then show ?thesis using assms
      by (auto simp: Bbody_def get3_def put_def nstrc_2 curvature_entry_def fun_eq_iff)
  qed
qed

lemma Bloop_result:
  assumes "nsd k = 1 \<or> nsd k = 2" "dim2 d = nsd k" "dim3 d = nsd k"
  shows "\<forall>i \<in> set is. 1 \<le> i \<and> i \<le> dim1 d \<Longrightarrow> nrow Bm = nstrc k \<Longrightarrow> ncol Bm = dim1 d \<Longrightarrow>
         Bloop k d is Bm =
           Inr (Bm\<lparr>ent := (\<lambda>r c. if c \<in> set is \<and> 1 \<le> r \<and> r \<le> nstrc k
                                  then curvature_entry d r c else ent Bm r c)\<rparr>)"
proof (induction "is" arbitrary: Bm)
  case Nil
  then show ?case by simp
next
  case (Cons i "is")
  have body: "Bbody k d i Bm =
           Inr (Bm\<lparr>ent := (\<lambda>r c. if c = i \<and> 1 \<le> r \<and> r \<le> nstrc k
                                  then curvature_entry d r c else ent Bm r c)\<rparr>)"
    using Cons.prems assms by (intro Bbody_result) auto
  show ?case
    using Cons.prems by (simp add: body Cons.IH fun_eq_iff) 
qed

lemma formBmatrix_result:
  assumes "nsd k = 1 \<or> nsd k = 2" "dim2 d = nsd k" "dim3 d = nsd k"
  shows "formBmatrix k Bmat d =
           Inr (True, \<lparr>nrow = nstrc k, ncol = dim1 d,
                       ent = (\<lambda>r c. if 1 \<le> c \<and> c \<le> dim1 d \<and> 1 \<le> r \<and> r \<le> nstrc k
                                    then curvature_entry d r c else 0)\<rparr>)"
proof -
  have "Bloop k d [1..<Suc (dim1 d)] (zero_matrix (nstrc k) (dim1 d)) =
          Inr ((zero_matrix (nstrc k) (dim1 d))\<lparr>ent := (\<lambda>r c. if c \<in> set [1..<Suc (dim1 d)] \<and> 1 \<le> r \<and> r \<le> nstrc k
                                  then curvature_entry d r c else ent (zero_matrix (nstrc k) (dim1 d)) r c)\<rparr>)"
    using assms by (intro Bloop_result) (auto simp: zero_matrix_def)
  then show ?thesis
    using assms by (auto simp: formBmatrix_def Let_def zero_matrix_def fun_eq_iff)
qed

lemma upt1_nth: "r < n \<Longrightarrow> [1..<Suc n] ! r = Suc r"
  by (metis Suc_less_eq nth_upt plus_1_eq_Suc)

lemma multiply_length: "multiply M x = Some y \<Longrightarrow> length y = nrow M"
  by (auto simp: multiply_def split: if_splits)

lemma multiply_nth:
  "multiply M x = Some y \<Longrightarrow> 1 \<le> r \<Longrightarrow> r \<le> nrow M \<Longrightarrow>
     y ! (r - 1) = (\<Sum>c = 1..ncol M. ent M r c * x ! (c - 1))"
proof -
  assume y: "multiply M x = Some y" and r: "1 \<le> r" "r \<le> nrow M"
  have len: "length x = ncol M"
    using y by (simp add: multiply_def split: if_splits)
  have "y = map (\<lambda>r. \<Sum>c = 1..ncol M. ent M r c * x ! (c - 1)) [1..<Suc (nrow M)]"
    using y len by (simp add: multiply_def)
  moreover have "r - 1 < nrow M" using r by simp
  moreover have "[1..<Suc (nrow M)] ! (r - 1) = r"
    using r upt1_nth [of "r - 1" "nrow M"] by simp
  ultimately show ?thesis
    by (simp del: upt_Suc)
qed

lemma multiply_defined: "length x = ncol M \<Longrightarrow> \<exists>y. multiply M x = Some y"
  by (simp add: multiply_def)

text \<open>
  C3. When the two derivative dimensions of the array equal the spatial dimension (1 or
  2), \<^verbatim>\<open>formBmatrix\<close> succeeds with an \<open>nstrc\<close> by \<open>n\<close> matrix whose first row holds
  \<open>d2N/dx2\<close> and, in dimension 2, whose second row holds \<open>d2N/dy2\<close> and whose third row
  holds \<open>2 d2N/dxdy\<close>. So for nodal values whose second derivatives are those of
  \<open>w = x\<^sup>2\<close> (2 for \<open>xx\<close>, 0 for \<open>yy\<close> and \<open>xy\<close>), the operator applied to them gives
  the curvature \<open>(2, 0, 0)\<close>.
\<close>

theorem formBmatrix_rows:
  assumes "nsd k = 1 \<or> nsd k = 2" "dim2 d = nsd k" "dim3 d = nsd k"
  shows "\<exists>Bm. formBmatrix k Bmat d = Inr (True, Bm) \<and>
           nrow Bm = nstrc k \<and> ncol Bm = dim1 d \<and>
           (\<forall>i \<in> {1..dim1 d}.
              ent Bm 1 i = ent3 d i 1 1 \<and>
              (nsd k = 2 \<longrightarrow> ent Bm 2 i = ent3 d i 2 2 \<and> ent Bm 3 i = 2 * ent3 d i 1 2)) \<and>
           (nsd k = 2 \<and> length eV = dim1 d \<and>
            (\<Sum>i = 1..dim1 d. ent3 d i 1 1 * eV ! (i - 1)) = 2 \<and>
            (\<Sum>i = 1..dim1 d. ent3 d i 2 2 * eV ! (i - 1)) = 0 \<and>
            (\<Sum>i = 1..dim1 d. ent3 d i 1 2 * eV ! (i - 1)) = 0
            \<longrightarrow> multiply Bm eV = Some [2, 0, 0])"
proof -
  define Bm where "Bm = \<lparr>nrow = nstrc k, ncol = dim1 d,
                       ent = (\<lambda>r c. if 1 \<le> c \<and> c \<le> dim1 d \<and> 1 \<le> r \<and> r \<le> nstrc k
                                    then curvature_entry d r c else 0)\<rparr>"
  have B: "formBmatrix k Bmat d = Inr (True, Bm)"
    unfolding Bm_def using assms by (rule formBmatrix_result)
  have dims: "nrow Bm = nstrc k" "ncol Bm = dim1 d"
    by (simp_all add: Bm_def)
  have rows: "ent Bm 1 i = ent3 d i 1 1 \<and>
              (nsd k = 2 \<longrightarrow> ent Bm 2 i = ent3 d i 2 2 \<and> ent Bm 3 i = 2 * ent3 d i 1 2)"
    if "i \<in> {1..dim1 d}" for i
    using that assms(1) by (auto simp: Bm_def curvature_entry_def nstrc_1 nstrc_2)
  have x2: "multiply Bm eV = Some [2, 0, 0]"
    if two: "nsd k = 2" and len: "length eV = dim1 d"
      and xx: "(\<Sum>i = 1..dim1 d. ent3 d i 1 1 * eV ! (i - 1)) = 2"
      and yy: "(\<Sum>i = 1..dim1 d. ent3 d i 2 2 * eV ! (i - 1)) = 0"
      and xy: "(\<Sum>i = 1..dim1 d. ent3 d i 1 2 * eV ! (i - 1)) = 0"
  proof -
    have "(\<Sum>c = 1..dim1 d. ent Bm 1 c * eV ! (c - 1)) =
          (\<Sum>c = 1..dim1 d. ent3 d c 1 1 * eV ! (c - 1))"
      by (rule sum.cong) (simp_all add: Bm_def curvature_entry_def nstrc_2 [OF two])
    then have r1: "(\<Sum>c = 1..dim1 d. ent Bm 1 c * eV ! (c - 1)) = 2"
      using xx by simp
    have "(\<Sum>c = 1..dim1 d. ent Bm 2 c * eV ! (c - 1)) =
          (\<Sum>c = 1..dim1 d. ent3 d c 2 2 * eV ! (c - 1))"
      by (rule sum.cong) (simp_all add: Bm_def curvature_entry_def nstrc_2 [OF two])
    then have r2: "(\<Sum>c = 1..dim1 d. ent Bm 2 c * eV ! (c - 1)) = 0"
      using yy by simp
    have "(\<Sum>c = 1..dim1 d. ent Bm 3 c * eV ! (c - 1)) =
          (\<Sum>c = 1..dim1 d. 2 * (ent3 d c 1 2 * eV ! (c - 1)))"
      by (rule sum.cong) (simp_all add: Bm_def curvature_entry_def nstrc_2 [OF two])
    also have "\<dots> = 0"
      using xy by (simp add: sum_distrib_left [symmetric])
    finally have r3: "(\<Sum>c = 1..dim1 d. ent Bm 3 c * eV ! (c - 1)) = 0" .
    have "[1..<Suc (nrow Bm)] = [1, 2, 3]"
      by (simp add: dims nstrc_2 [OF two] upt_rec)
    then show ?thesis
      using len r1 r2 r3 by (simp add: multiply_def dims del: upt_Suc)
  qed
  show ?thesis
    using B dims rows x2 by blast
qed

theorem formBmatrix_rows_witness:
  "\<exists>Bm. formBmatrix (KirchhoffLovePlate 2) (zero_matrix 0 0) bernstein_d2 = Inr (True, Bm) \<and>
        ent Bm 3 1 = 2 \<and> multiply Bm w_x2 = Some [2, 0, 0]"
proof -
  have sums:
    "(\<Sum>i = 1..dim1 bernstein_d2. ent3 bernstein_d2 i 1 1 * w_x2 ! (i - 1)) = 2"
    "(\<Sum>i = 1..dim1 bernstein_d2. ent3 bernstein_d2 i 2 2 * w_x2 ! (i - 1)) = 0"
    "(\<Sum>i = 1..dim1 bernstein_d2. ent3 bernstein_d2 i 1 2 * w_x2 ! (i - 1)) = 0"
    by (simp_all add: bernstein_d2_def w_x2_def eval_nat_numeral)
  have "length w_x2 = dim1 bernstein_d2"
    by (simp add: bernstein_d2_def w_x2_def)
  with sums formBmatrix_rows [of "KirchhoffLovePlate 2" bernstein_d2 "zero_matrix 0 0" w_x2]
  show ?thesis
    by (auto simp: KirchhoffLovePlate_def bernstein_d2_def)
qed



subsection \<open>Stress recovery\<close>

text \<open>
  C1. For a non-empty displacement vector with one entry per node, an array of the
  right dimensions and a material whose forward evaluation gives an \<open>nstrc\<close> by
  \<open>nstrc\<close> matrix, \<^verbatim>\<open>evalSol\<close> succeeds; with B from \<^verbatim>\<open>formBmatrix\<close> and C from
  \<^verbatim>\<open>formCmatrix\<close> in forward mode (the material's matrix times \<open>thickness\<^sup>3/12\<close>),
  its result is the vector \<open>m = - C (B eV)\<close> of \<open>nstrc\<close> components, transformed at the
  point when a local system is set and \<^verbatim>\<open>toLocal\<close> is true.
\<close>

theorem evalSol_stress_resultant:
  assumes dims: "nsd k = 1 \<or> nsd k = 2" "dim2 d = nsd k" "dim3 d = nsd k"
    and eV: "eV \<noteq> []" "length eV = dim1 d"
    and mat: "material k = Some mat" "evaluate mat (nsd k) X 1 = Some C0"
    and C0: "nrow C0 = nstrc k" "ncol C0 = nstrc k"
  shows "\<exists>Bm Cm m.
           formBmatrix k (zero_matrix 0 0) d = Inr (True, Bm) \<and>
           formCmatrix k X False = Inr (Some Cm) \<and>
           Cm = scale (thickness k ^ 3 / 12) C0 \<and>
           evalSol transform k s eV d X toLocal =
             Inr (True, case locSys k of
                          None \<Rightarrow> m
                        | Some ls \<Rightarrow> if toLocal then transform (ls X) m else m) \<and>
           length m = nstrc k \<and>
           (\<forall>r \<in> {1..nstrc k}.
              m ! (r - 1) =
                - (\<Sum>c = 1..nstrc k. ent Cm r c * (\<Sum>i = 1..dim1 d. ent Bm c i * eV ! (i - 1))))"
proof -
  define Bm where "Bm = \<lparr>nrow = nstrc k, ncol = dim1 d,
                       ent = (\<lambda>r c. if 1 \<le> c \<and> c \<le> dim1 d \<and> 1 \<le> r \<and> r \<le> nstrc k
                                    then curvature_entry d r c else 0)\<rparr>"
  define Cm where "Cm = scale (thickness k ^ 3 / 12) C0"
  have B: "formBmatrix k (zero_matrix 0 0) d = Inr (True, Bm)"
    unfolding Bm_def using dims by (rule formBmatrix_result)
  have C: "formCmatrix k X False = Inr (Some Cm)"
    using mat by (simp add: formCmatrix_def Cm_def Let_def power3_eq_cube)
  have Bdim: "nrow Bm = nstrc k" "ncol Bm = dim1 d"
    by (simp_all add: Bm_def)
  have Cdim: "nrow Cm = nstrc k" "ncol Cm = nstrc k"
    using C0 by (simp_all add: Cm_def scale_def)
  obtain kappa where kappa: "multiply Bm eV = Some kappa"
    using multiply_defined [of eV Bm] eV Bdim by auto
  have klen: "length kappa = nstrc k"
    using multiply_length [OF kappa] Bdim by simp
  obtain m where m: "multiply Cm (map (\<lambda>x. - 1 * x) kappa) = Some m"
    using multiply_defined [of "map (\<lambda>x. - 1 * x) kappa" Cm] klen Cdim by auto
  have mlen: "length m = nstrc k"
    using multiply_length [OF m] Cdim by simp
  have run: "evalSol transform k s eV d X toLocal =
             Inr (True, case locSys k of
                          None \<Rightarrow> m
                        | Some ls \<Rightarrow> if toLocal then transform (ls X) m else m)"
    using eV by (simp add: evalSol_def B C kappa m split: option.splits)
  have entries: "m ! (r - 1) =
                - (\<Sum>c = 1..nstrc k. ent Cm r c * (\<Sum>i = 1..dim1 d. ent Bm c i * eV ! (i - 1)))"
    if r: "r \<in> {1..nstrc k}" for r
  proof -
    have "m ! (r - 1) = (\<Sum>c = 1..nstrc k. ent Cm r c * map (\<lambda>x. - 1 * x) kappa ! (c - 1))"
      using multiply_nth [OF m, of r] r Cdim by simp
    also have "\<dots> = (\<Sum>c = 1..nstrc k. - (ent Cm r c * (\<Sum>i = 1..dim1 d. ent Bm c i * eV ! (i - 1))))"
    proof (rule sum.cong [OF refl])
      fix c assume c: "c \<in> {1..nstrc k}"
      then have "c - 1 < length kappa" using klen by auto
      then have "map (\<lambda>x. - 1 * x) kappa ! (c - 1) = - (kappa ! (c - 1))" by simp
      moreover have "kappa ! (c - 1) = (\<Sum>i = 1..dim1 d. ent Bm c i * eV ! (i - 1))"
        using multiply_nth [OF kappa, of c] c Bdim by simp
      ultimately show "ent Cm r c * map (\<lambda>x. - 1 * x) kappa ! (c - 1) =
                       - (ent Cm r c * (\<Sum>i = 1..dim1 d. ent Bm c i * eV ! (i - 1)))"
        by simp
    qed
    also have "\<dots> = - (\<Sum>c = 1..nstrc k. ent Cm r c * (\<Sum>i = 1..dim1 d. ent Bm c i * eV ! (i - 1)))"
      by (simp add: sum_negf)
    finally show ?thesis .
  qed
  show ?thesis
    using B C run mlen entries Cm_def by blast
qed

lemma sample_curvature:
  assumes "formBmatrix sample_plate (zero_matrix 0 0) bernstein_d2 = Inr (True, Bm)"
  shows "multiply Bm w_x2 = Some [2, 0, 0]"
proof -
  have two: "nsd sample_plate = 2"
    by (simp add: sample_plate_def KirchhoffLovePlate_def)
  have "formBmatrix sample_plate (zero_matrix 0 0) bernstein_d2 =
          Inr (True, \<lparr>nrow = nstrc sample_plate, ncol = dim1 bernstein_d2,
                       ent = (\<lambda>r c. if 1 \<le> c \<and> c \<le> dim1 bernstein_d2 \<and> 1 \<le> r \<and>
                                       r \<le> nstrc sample_plate
                                    then curvature_entry bernstein_d2 r c else 0)\<rparr>)"
    by (rule formBmatrix_result) (simp_all add: two bernstein_d2_def)
  with assms have Bm: "Bm = \<lparr>nrow = 3, ncol = 9,
                       ent = (\<lambda>r c. if 1 \<le> c \<and> c \<le> 9 \<and> 1 \<le> r \<and> r \<le> 3
                                    then curvature_entry bernstein_d2 r c else 0)\<rparr>"
    by (simp add: nstrc_2 [OF two] bernstein_d2_def)
  have rows: "[1..<Suc 3] = [1, 2, 3]"
    by (simp add: upt_rec)
  show ?thesis
    unfolding Bm multiply_def
    by (simp add: rows w_x2_def curvature_entry_def bernstein_d2_def del: upt_Suc)
       (simp add: eval_nat_numeral curvature_entry_def bernstein_d2_def)
qed

lemma sample_moment: "formCmatrix sample_plate X False = Inr (Some Cm) \<Longrightarrow>
   multiply Cm [-2,0,0] = Some [- 50 / 273, - 5 / 91, 0]"
  by (auto simp: formCmatrix_def sample_plate_def KirchhoffLovePlate_def sample_material_def multiply_def of_rows_def scale_def Let_def eval_nat_numeral)

theorem evalSol_stress_resultant_witness:
  "evalSol (\<lambda>T v. v) sample_plate [] w_x2 bernstein_d2 (1 / 2, 1 / 2, 0) False =
     Inr (True, [- 50 / 273, - 5 / 91, 0])"
proof -
  have h: "nsd sample_plate = 1 \<or> nsd sample_plate = 2" "dim2 bernstein_d2 = nsd sample_plate"
    "dim3 bernstein_d2 = nsd sample_plate" "w_x2 \<noteq> []" "length w_x2 = dim1 bernstein_d2"
    "material sample_plate = Some sample_material"
    by (simp_all add: sample_plate_def KirchhoffLovePlate_def bernstein_d2_def w_x2_def)
  have e: "evaluate sample_material (nsd sample_plate) (1 / 2, 1 / 2, 0) 1 = Some (of_rows [[100000 / 91, 30000 / 91, 0],
                            [30000 / 91, 100000 / 91, 0],
                            [0, 0, 5000 / 13]])" 
    by (simp add: sample_plate_def KirchhoffLovePlate_def sample_material_def)
  have d: "nrow (of_rows [[100000 / 91, 30000 / 91, 0],
                            [30000 / 91, 100000 / 91, 0],
                            [0, 0, 5000 / 13]]) = nstrc sample_plate" "ncol (of_rows [[100000 / 91, 30000 / 91, 0],
                            [30000 / 91, 100000 / 91, 0],
                            [0, 0, 5000 / 13]]) = nstrc sample_plate"
    by (simp_all add: of_rows_def nstrc_def sample_plate_def KirchhoffLovePlate_def)
  from evalSol_stress_resultant [OF h e d, of "\<lambda>T v. v" "[]" False]
  obtain Bm Cm m where B: "formBmatrix sample_plate (zero_matrix 0 0) bernstein_d2 = Inr (True, Bm)"
    and C: "formCmatrix sample_plate (1 / 2, 1 / 2, 0) False = Inr (Some Cm)"
    and r: "evalSol (\<lambda>T v. v) sample_plate [] w_x2 bernstein_d2 (1 / 2, 1 / 2, 0) False = Inr (True, m)"
    by (auto simp: sample_plate_def KirchhoffLovePlate_def)
  have "m = [- 50 / 273, - 5 / 91, 0]"
    using r h sample_curvature [OF B] sample_moment [OF C]
    by (simp add: evalSol_def B C)
  with r show ?thesis by simp
qed

subsection \<open>The constitutive matrix\<close>










text \<open>The thicknesses \<open>1/10^120\<close> and \<open>10^103\<close>, whose cube underflows to zero and
  overflows in doubles, are outside the range.\<close>

lemma extreme_thickness_out_of_range:
  "\<not> formCmatrix_in_range (1 / 10 ^ 120) M M'" "\<not> formCmatrix_in_range (10 ^ 103) M M'"
  by (simp_all add: formCmatrix_in_range_def normal_double_def dbl_min_def dbl_max_def)

subsection \<open>The default material\<close>

text \<open>
  C5, as the code has it. With no material set, \<^verbatim>\<open>printLog\<close> stores the default
  material in the integrand, and \<^verbatim>\<open>formCmatrix\<close>, \<^verbatim>\<open>getPressure\<close> and
  \<^verbatim>\<open>formMassMatrix\<close> then evaluate that material; with a material set, \<^verbatim>\<open>printLog\<close>
  changes nothing.
\<close>

theorem printLog_default_material:
  "(material k = None \<longrightarrow>
      material (printLog defaultMat k) = Some defaultMat \<and>
      formCmatrix (printLog defaultMat k) X invers =
        Inr (case evaluate defaultMat (nsd k) X (if invers then - 1 else 1) of
               None \<Rightarrow> None
             | Some C \<Rightarrow>
                 Some (scale (if invers then 1 / (thickness k ^ 3 / 12)
                              else thickness k ^ 3 / 12) C)) \<and>
      getPressure (printLog defaultMat k) X =
        Inr (getMassDensity defaultMat X * gravity k * thickness k +
             (case presFld k of None \<Rightarrow> 0 | Some f \<Rightarrow> f X)) \<and>
      formMassMatrix (printLog defaultMat k) EM Nv X detJW =
        Inr (if getMassDensity defaultMat X * thickness k \<noteq> 0
             then outer_product_add EM Nv
                    (map (\<lambda>x. x * (getMassDensity defaultMat X * thickness k) * detJW) Nv)
             else EM)) \<and>
   (material k \<noteq> None \<longrightarrow> printLog defaultMat k = k)"
  by (auto simp: printLog_def formCmatrix_def getPressure_def formMassMatrix_def Let_def
      power3_eq_cube split: option.splits)

theorem printLog_default_material_witness:
  "material (printLog sample_material (KirchhoffLovePlate 2)) = Some sample_material \<and>
   getPressure (printLog sample_material (KirchhoffLovePlate 2)) (0, 0, 0) = Inr 0 \<and>
   printLog sample_material sample_plate = sample_plate"
  using printLog_default_material [of "KirchhoffLovePlate 2" sample_material "(0, 0, 0)"]
    printLog_default_material [of sample_plate sample_material]
  by (simp add: sample_plate_def KirchhoffLovePlate_def)

text \<open>The claim fails on a plate with no material: \<^verbatim>\<open>printLog\<close> replaces the unset
  material by the default, after which \<^verbatim>\<open>formCmatrix\<close> succeeds; before it,
  \<^verbatim>\<open>formCmatrix\<close> dereferences the null pointer and reports nothing.\<close>

theorem missing_material_counterexample:
  "material (KirchhoffLovePlate 2) = None \<and>
   material (printLog sample_material (KirchhoffLovePlate 2)) = Some sample_material \<and>
   formCmatrix (KirchhoffLovePlate 2) (0, 0, 0) False = Inl NullDereference \<and>
   formCmatrix (printLog sample_material (KirchhoffLovePlate 2)) (0, 0, 0) False \<noteq> Inr None"
  by (simp add: printLog_def formCmatrix_def KirchhoffLovePlate_def sample_material_def Let_def)

subsection \<open>Loads\<close>

text \<open>
  C7, as the code has it. \<^verbatim>\<open>haveLoads\<close> is true if and only if a pressure field is
  set, whatever its values, or gravity is not zero and the material is set and has a
  density that is not zero at the origin.
\<close>

theorem haveLoads_iff:
  "haveLoads k \<longleftrightarrow>
     presFld k \<noteq> None \<or>
     (gravity k \<noteq> 0 \<and> (\<exists>m. material k = Some m \<and> getMassDensity m (0, 0, 0) \<noteq> 0))"
  by (auto simp: haveLoads_def split: option.splits)

theorem haveLoads_iff_witness:
  "haveLoads zero_pressure_plate \<and> haveLoads heavy_plate \<and> \<not> haveLoads sample_plate \<and>
   \<not> haveLoads (KirchhoffLovePlate 2)"
  using haveLoads_iff [of zero_pressure_plate] haveLoads_iff [of heavy_plate] haveLoads_iff [of sample_plate]
    haveLoads_iff [of "KirchhoffLovePlate 2"]
  by (simp add: zero_pressure_plate_def heavy_plate_def sample_plate_def
      KirchhoffLovePlate_def sample_material_def)

text \<open>With a pressure field that is zero everywhere, \<^verbatim>\<open>haveLoads\<close> is true although
  no nonzero pressure field is set and gravity is zero.\<close>

theorem haveLoads_zero_field_counterexample:
  "haveLoads zero_pressure_plate \<and> \<not> haveLoads_spec zero_pressure_plate"
  by (simp add: haveLoads_def haveLoads_spec_def zero_pressure_plate_def KirchhoffLovePlate_def)

lemma vadd_length: "length (vadd ys xs a) = length ys"
  by (induction ys xs a rule: vadd.induct) simp_all

lemma vadd_nth:
  "i < length ys \<Longrightarrow> i < length xs \<Longrightarrow> vadd ys xs a ! i = ys ! i + a * xs ! i"
  by (induction ys xs a arbitrary: i rule: vadd.induct) (auto simp: nth_Cons')

text \<open>
  C8, as the code has it. When the pressure at the point is zero, \<^verbatim>\<open>formBodyForce\<close>
  leaves the load vector and the sample buffer as they are. When it is not zero, the load
  vector gets \<open>detJW * p * N\<close> added, and the sample \<open>(X, (0,0,p))\<close> is stored at the index
  of the quadrature point if the buffer has that index; otherwise the buffer stays as it
  is.
\<close>

theorem formBodyForce_effect:
  assumes "getPressure k X = Inr p"
  shows "(p = 0 \<longrightarrow> formBodyForce k ES Nv iP X detJW = Inr (ES, k)) \<and>
         (p \<noteq> 0 \<longrightarrow>
            (\<exists>ES'. formBodyForce k ES Nv iP X detJW =
                     Inr (ES', if iP < length (presVal k)
                               then k\<lparr>presVal := (presVal k)[iP := (X, (0, 0, p))]\<rparr>
                               else k) \<and>
                   length ES' = length ES \<and>
                   (\<forall>i < length ES. i < length Nv \<longrightarrow>
                      ES' ! i = ES ! i + detJW * p * Nv ! i)))"
  using assms by (simp add: formBodyForce_def vadd_length vadd_nth mult.commute)

theorem formBodyForce_effect_witness:
  "formBodyForce sample_plate [1, 2] [1 / 4, 3 / 4] 0 (0, 0, 0) 1 = Inr ([1, 2], sample_plate) \<and>
   formBodyForce (initIntegration 2 heavy_plate) [1, 2] [1 / 4, 3 / 4] 1 (1 / 2, 1 / 2, 0) 10 =
     Inr ([5 / 4, 11 / 4],
          heavy_plate\<lparr>presVal := [((0, 0, 0), (0, 0, 0)), ((1 / 2, 1 / 2, 0), (0, 0, 1 / 10))]\<rparr>)"
proof -
  have p0: "getPressure sample_plate (0, 0, 0) = Inr 0"
    by (simp add: getPressure_def sample_plate_def KirchhoffLovePlate_def sample_material_def)
  have p1: "getPressure (initIntegration 2 heavy_plate) (1 / 2, 1 / 2, 0) = Inr (1 / 10)"
    by (simp add: getPressure_def initIntegration_def heavy_plate_def sample_plate_def
        KirchhoffLovePlate_def sample_material_def)
  have pv: "presVal (initIntegration 2 heavy_plate) = [((0, 0, 0), (0, 0, 0)), ((0, 0, 0), (0, 0, 0))]"
    by (simp add: initIntegration_def heavy_plate_def sample_plate_def
        KirchhoffLovePlate_def resize_vec_def eval_nat_numeral)
  from formBodyForce_effect [OF p1, of "[1, 2]" "[1 / 4, 3 / 4]" 1 10]
  obtain ES' where r: "formBodyForce (initIntegration 2 heavy_plate) [1, 2] [1 / 4, 3 / 4] 1 (1 / 2, 1 / 2, 0) 10 =
     Inr (ES', (initIntegration 2 heavy_plate)\<lparr>presVal := [((0, 0, 0), (0, 0, 0)), ((1 / 2, 1 / 2, 0), (0, 0, 1 / 10))]\<rparr>)"
    and len: "length ES' = 2" and v: "ES' ! 0 = 5 / 4" "ES' ! 1 = 11 / 4"
    by (auto simp: pv)
  have "ES' = [5 / 4, 11 / 4]"
    using len v by (cases ES'; cases "tl ES'") auto
  moreover have "(initIntegration 2 heavy_plate)\<lparr>presVal := [((0, 0, 0), (0, 0, 0)), ((1 / 2, 1 / 2, 0), (0, 0, 1 / 10))]\<rparr> = heavy_plate\<lparr>presVal := [((0, 0, 0), (0, 0, 0)), ((1 / 2, 1 / 2, 0), (0, 0, 1 / 10))]\<rparr>"
    by (simp add: initIntegration_def)
  ultimately show ?thesis
    using formBodyForce_effect [OF p0, of "[1, 2]" "[1 / 4, 3 / 4]" 0 1] r by simp
qed

text \<open>With an empty sample buffer (\<^verbatim>\<open>initIntegration\<close> not called) and a pressure that
  is not zero, no sample is recorded at the index of the quadrature point.\<close>

theorem formBodyForce_no_sample_counterexample:
  "getPressure heavy_plate (0, 0, 0) = Inr (1 / 10) \<and>
   (case formBodyForce heavy_plate [0] [1] 0 (0, 0, 0) 1 of
      Inl f \<Rightarrow> None
    | Inr (ES', k') \<Rightarrow> sample_at k' 0) \<noteq> Some ((0, 0, 0), (0, 0, 1 / 10))"
  by (simp add: formBodyForce_def getPressure_def sample_at_def heavy_plate_def sample_plate_def
      KirchhoffLovePlate_def sample_material_def)

subsection \<open>The effectivity index\<close>

lemma bindF_eq_Inr: "bindF x f = Inr y \<longleftrightarrow> (\<exists>v. x = Inr v \<and> f v = Inr y)"
  by (cases x) simp_all

lemma padd_Inr:
  assumes "padd p i v = Inr q"
  shows "length q = length p" and "j \<noteq> i \<Longrightarrow> q ! j = p ! j"
  using assms by (auto simp: padd_def split: if_splits)

lemma slot_apart:
  assumes "ip mod 6 = (4::nat)" "j mod 6 = (3::nat)" "d < (5::nat)"
  shows "j \<noteq> ip + d"
proof
  assume eq: "j = ip + d"
  obtain c where c: "j = 6 * c + 3"
    using assms(2) by (metis mult_div_mod_eq)
  obtain e where e: "ip = 6 * e + 4"
    using assms(1) by (metis mult_div_mod_eq)
  have "6 * c + 3 = 6 * e + 4 + d"
    using eq unfolding c e .
  with assms(3) show False by arith
qed

lemma psol_loop_frame:
  "psol_loop Cinv mh (Some m) Nv w nr pss ip p = Inr q \<Longrightarrow> ip mod 6 = 4 \<Longrightarrow>
     length q = length p \<and> (\<forall>j. j mod 6 = 3 \<longrightarrow> q ! j = p ! j)"
proof (induction pss arbitrary: ip p)
  case Nil
  then show ?case by simp
next
  case (Cons ps rest)
  show ?case
  proof (cases "ps = []")
    case True
    with Cons show ?thesis by simp
  next
    case False
    with Cons.prems(1) obtain p1 p2 p3 p4 p5 v1 v2 v3 v4 v5 where
      s1: "padd p ip v1 = Inr p1" and s2: "padd p1 (ip + 1) v2 = Inr p2" and
      s3: "padd p2 (ip + 2) v3 = Inr p3" and s4: "padd p3 (ip + 3) v4 = Inr p4" and
      s5: "padd p4 (ip + 4) v5 = Inr p5" and
      rec: "psol_loop Cinv mh (Some m) Nv w nr rest (ip + 6) p5 = Inr q"
      by (auto simp: Let_def bindF_eq_Inr split: if_splits)
    have ip6: "(ip + 6) mod 6 = 4" using Cons.prems(2) by simp
    from Cons.IH [OF rec ip6]
    have len: "length q = length p5" and fr: "\<And>j. j mod 6 = 3 \<Longrightarrow> q ! j = p5 ! j"
      by simp_all
    have "length p5 = length p"
      using padd_Inr(1) [OF s1] padd_Inr(1) [OF s2] padd_Inr(1) [OF s3] padd_Inr(1) [OF s4]
        padd_Inr(1) [OF s5] by simp
    moreover have "p5 ! j = p ! j" if j: "j mod 6 = 3" for j
    proof -
      have ne: "j \<noteq> ip" "j \<noteq> ip + 1" "j \<noteq> ip + 2" "j \<noteq> ip + 3" "j \<noteq> ip + 4"
        using slot_apart [OF Cons.prems(2) j, of 0] slot_apart [OF Cons.prems(2) j, of 1]
          slot_apart [OF Cons.prems(2) j, of 2] slot_apart [OF Cons.prems(2) j, of 3]
          slot_apart [OF Cons.prems(2) j, of 4] by simp_all
      show ?thesis
        using padd_Inr(2) [OF s1 ne(1)] padd_Inr(2) [OF s2 ne(2)] padd_Inr(2) [OF s3 ne(3)]
          padd_Inr(2) [OF s4 ne(4)] padd_Inr(2) [OF s5 ne(5)] by simp
    qed
    ultimately show ?thesis using len fr by simp
  qed
qed

lemma slots_frame:
  assumes run: "bindF (padd p0 0 v1) (\<lambda>p1.
                bindF (load p1) (\<lambda>p2.
                bindF (padd p2 2 v3) (\<lambda>p3.
                bindF (padd p3 3 (v4 p3)) (\<lambda>p4.
                bindF (loop p4) (\<lambda>p5. Inr (True, p5)))))) = Inr (ok, q)"
    and load: "\<And>p1 p2. load p1 = Inr p2 \<Longrightarrow>
                 length p2 = length p1 \<and> (\<forall>j. j \<noteq> 1 \<longrightarrow> p2 ! j = p1 ! j)"
    and loop: "\<And>p4 p5. loop p4 = Inr p5 \<Longrightarrow>
                 length p5 = length p4 \<and> (\<forall>j. j mod 6 = 3 \<longrightarrow> p5 ! j = p4 ! j)"
  shows "length q = length p0 \<and> (\<forall>i. q ! (9 + 6 * i) = p0 ! (9 + 6 * i))"
proof -
  from run obtain p1 where s1: "padd p0 0 v1 = Inr p1"
    and r1: "bindF (load p1) (\<lambda>p2.
                bindF (padd p2 2 v3) (\<lambda>p3.
                bindF (padd p3 3 (v4 p3)) (\<lambda>p4.
                bindF (loop p4) (\<lambda>p5. Inr (True, p5))))) = Inr (ok, q)"
    unfolding bindF_eq_Inr [of "padd p0 0 v1"] by blast
  from r1 obtain p2 where s2: "load p1 = Inr p2"
    and r2: "bindF (padd p2 2 v3) (\<lambda>p3.
                bindF (padd p3 3 (v4 p3)) (\<lambda>p4.
                bindF (loop p4) (\<lambda>p5. Inr (True, p5)))) = Inr (ok, q)"
    unfolding bindF_eq_Inr [of "load p1"] by blast
  from r2 obtain p3 where s3: "padd p2 2 v3 = Inr p3"
    and r3: "bindF (padd p3 3 (v4 p3)) (\<lambda>p4.
                bindF (loop p4) (\<lambda>p5. Inr (True, p5))) = Inr (ok, q)"
    unfolding bindF_eq_Inr [of "padd p2 2 v3"] by blast
  from r3 obtain p4 where s4: "padd p3 3 (v4 p3) = Inr p4"
    and r4: "bindF (loop p4) (\<lambda>p5. Inr (True, p5)) = Inr (ok, q)"
    unfolding bindF_eq_Inr [of "padd p3 3 (v4 p3)"] by blast
  from r4 have lp: "loop p4 = Inr q"
    by (auto simp: bindF_eq_Inr)
  have len: "length q = length p0"
    using padd_Inr(1) [OF s1] load [OF s2] padd_Inr(1) [OF s3] padd_Inr(1) [OF s4]
      loop [OF lp] by simp
  have "q ! (9 + 6 * i) = p0 ! (9 + 6 * i)" for i
  proof -
    have "(9 + 6 * i) mod 6 = 3" by simp
    then have "q ! (9 + 6 * i) = p4 ! (9 + 6 * i)"
      using loop [OF lp] by blast
    then show ?thesis
      using padd_Inr(2) [OF s1, of "9 + 6 * i"] load [OF s2]
        padd_Inr(2) [OF s3, of "9 + 6 * i"] padd_Inr(2) [OF s4, of "9 + 6 * i"] by simp
  qed
  with len show ?thesis by simp
qed

lemma load_slot_frame:
  assumes "(if c then bindF g (\<lambda>p. padd p1 1 (v p)) else Inr p1) = Inr p2"
  shows "length p2 = length p1 \<and> (\<forall>j. j \<noteq> 1 \<longrightarrow> p2 ! j = p1 ! j)"
proof (cases c)
  case True
  with assms obtain p where "padd p1 1 (v p) = Inr p2"
    by (auto simp: bindF_eq_Inr)
  then show ?thesis using padd_Inr by blast
next
  case False
  with assms show ?thesis by simp
qed

lemma evalInt_norm_frame:
  assumes an: "anasol nrm = Some a"
    and run: "evalInt_norm transform nrm pnorm fe X = Inr (ok, q)"
  shows "length q = length (buf pnorm) \<and> (\<forall>i. q ! (9 + 6 * i) = buf pnorm ! (9 + 6 * i))"
proof -
  from run obtain okC where
    c: "formCmatrix (myProblem nrm) X True = Inr okC"
    unfolding evalInt_norm_def Let_def bindF_eq_Inr by blast
  show ?thesis
  proof (cases okC)
    case None
    with run c show ?thesis by (simp add: evalInt_norm_def)
  next
    case (Some Cinv)
    show ?thesis
    proof (cases "vec pnorm")
      case Nil
      with run c Some show ?thesis by (simp add: evalInt_norm_def)
    next
      case (Cons eV vs)
      from run c Some Cons obtain ok' mh where
        e: "evalSol transform (myProblem nrm) [] eV (d2NdX2 fe) X False = Inr (ok', mh)"
        by (cases "evalSol transform (myProblem nrm) [] eV (d2NdX2 fe) X False")
           (auto simp: evalInt_norm_def)
      show ?thesis
      proof (cases ok')
        case False
        with run c Some Cons e show ?thesis by (simp add: evalInt_norm_def)
      next
        case True
        have "bindF (padd (buf pnorm) 0 (dot mh (mtimes Cinv mh) 0 1 * detJxW fe)) (\<lambda>p1.
                bindF (if haveLoads (myProblem nrm)
                       then bindF (getPressure (myProblem nrm) X) (\<lambda>p.
                              padd p1 1 (p * dot eV (N fe) 0 1 * detJxW fe))
                       else Inr p1) (\<lambda>p2.
                bindF (padd p2 2 (dot (a X) (mtimes Cinv (a X)) 0 1 * detJxW fe)) (\<lambda>p3.
                bindF (padd p3 3
                         (dot (vsub (a X) mh) (mtimes Cinv (vsub (a X) mh)) 0 1 *
                          detJxW fe)) (\<lambda>p4.
                bindF (psol_loop Cinv mh (Some (a X)) (N fe) (detJxW fe)
                         (nrcmp nrm) (psol pnorm) 4 p4) (\<lambda>p5.
                  Inr (True, p5)))))) = Inr (ok, q)"
          using run e True unfolding evalInt_norm_def Let_def an c Some Cons
          by simp
        then show ?thesis
          by (rule slots_frame) (erule load_slot_frame, erule psol_loop_frame, simp)
      qed
    qed
  qed
qed

lemma finalize_loop_length: "length (finalize_loop ip p) = length p"
proof (induction ip p rule: finalize_loop.induct)
  case (1 ip p)
  show ?case
  proof (cases "ip < length p")
    case True
    then have "finalize_loop ip p = finalize_loop (ip + 6) (p[ip := sqrt (p ! (ip - 4) / p ! 3)])"
      by (subst finalize_loop.simps) simp
    with 1 True show ?thesis by simp
  next
    case False
    then have "finalize_loop ip p = p"
      by (subst finalize_loop.simps) simp
    then show ?thesis by simp
  qed
qed

lemma finalize_loop_nth:
  "9 \<le> ip \<Longrightarrow> ip mod 6 = 3 \<Longrightarrow> j < length p \<Longrightarrow>
     finalize_loop ip p ! j =
       (if ip \<le> j \<and> j mod 6 = 3 then sqrt (p ! (j - 4) / p ! 3) else p ! j)"
proof (induction ip p rule: finalize_loop.induct)
  case (1 ip p)
  show ?case
  proof (cases "ip < length p")
    case False
    then have "finalize_loop ip p = p"
      by (subst finalize_loop.simps) simp
    moreover have "\<not> ip \<le> j" using False "1.prems"(3) by arith
    ultimately show ?thesis by simp
  next
    case True
    define p' where "p' = p[ip := sqrt (p ! (ip - 4) / p ! 3)]"
    have step: "finalize_loop ip p = finalize_loop (ip + 6) p'"
      unfolding p'_def using True by (subst finalize_loop.simps) simp
    have len: "length p' = length p" by (simp add: p'_def)
    have m6: "(ip + 6) mod 6 = 3" using "1.prems"(2) by simp
    have IH: "finalize_loop (ip + 6) p' ! j =
       (if ip + 6 \<le> j \<and> j mod 6 = 3 then sqrt (p' ! (j - 4) / p' ! 3) else p' ! j)"
      unfolding p'_def
    proof (rule "1.IH" [OF True])
      show "9 \<le> ip + 6" using "1.prems"(1) by arith
      show "(ip + 6) mod 6 = 3" by (rule m6)
      show "j < length (p[ip := sqrt (p ! (ip - 4) / p ! 3)])" using "1.prems"(3) by simp
    qed
    have ip3: "ip \<noteq> 3" using "1.prems"(1) by arith
    have p3: "p' ! 3 = p ! 3" unfolding p'_def using ip3 by (rule nth_list_update_neq)
    show ?thesis
    proof (cases "ip + 6 \<le> j \<and> j mod 6 = 3")
      case far: True
      have ge: "ip + 6 \<le> j" using far by (rule conjunct1)
      then have "ip \<noteq> j - 4" by linarith
      then have "p' ! (j - 4) = p ! (j - 4)" unfolding p'_def by (rule nth_list_update_neq)
      moreover have "ip \<le> j" using ge by linarith
      ultimately show ?thesis using far IH p3 step by simp
    next
      case near: False
      show ?thesis
      proof (cases "j = ip")
        case same: True
        have "p' ! ip = sqrt (p ! (ip - 4) / p ! 3)"
          unfolding p'_def using True by (rule nth_list_update_eq)
        moreover have "finalize_loop ip p ! ip = p' ! ip"
          using IH same step by simp
        ultimately show ?thesis using same "1.prems"(2) by simp
      next
        case ne: False
        have no: "\<not> (ip \<le> j \<and> j mod 6 = 3)"
        proof
          assume both: "ip \<le> j \<and> j mod 6 = 3"
          then have le: "ip \<le> j" and j3: "j mod 6 = 3" by simp_all
          have lt: "j < ip + 6" using near j3 by simp
          obtain c where c: "j = 6 * c + 3"
            using j3 by (metis mult_div_mod_eq)
          obtain e where e: "ip = 6 * e + 3"
            using "1.prems"(2) by (metis mult_div_mod_eq)
          have "e \<le> c" "c < e + 1" "c \<noteq> e"
            using le lt ne unfolding c e by simp_all
          then show False by linarith
        qed
        have "ip \<noteq> j" using ne by simp
        then have "p' ! j = p ! j" unfolding p'_def by (rule nth_list_update_neq)
        moreover have "finalize_loop ip p ! j = p' ! j"
          using IH near step by simp
        ultimately show ?thesis using no by auto
      qed
    qed
  qed
qed

text \<open>
  C6. With an analytical solution, \<^verbatim>\<open>evalInt\<close> of the norm integrand never writes the
  slots \<open>9, 15, 21, ...\<close> (the last slot of each block of six after the four base slots):
  they are written by \<^verbatim>\<open>finalizeElement\<close> only, which leaves every other slot as it
  is and stores \<open>sqrt (pnorm[ip-4] / pnorm[3])\<close> there, the root of the quotient of the
  block's recovery error \<open>a(e\<^sup>r,e\<^sup>r)\<close> and the base group's true error \<open>a(e,e)\<close>.
  The value is stated where that quotient is a nonnegative real number: IEEE arithmetic
  gives an infinity or a NaN otherwise, which the real numbers do not have. Without an
  analytical solution \<^verbatim>\<open>finalizeElement\<close> changes nothing.
\<close>

theorem effectivity_index:
  assumes "anasol nrm = Some a"
  shows "(\<forall>ok q. evalInt_norm transform nrm pnorm fe X = Inr (ok, q) \<longrightarrow>
            length q = length (buf pnorm) \<and>
            (\<forall>i. 9 + 6 * i < length q \<longrightarrow> q ! (9 + 6 * i) = buf pnorm ! (9 + 6 * i))) \<and>
         length (finalizeElement nrm p) = length p \<and>
         (0 < p ! 3 \<and> (\<forall>i. 9 + 6 * i < length p \<longrightarrow> 0 \<le> p ! (5 + 6 * i)) \<longrightarrow>
            (\<forall>i. 9 + 6 * i < length p \<longrightarrow>
               finalizeElement nrm p ! (9 + 6 * i) = sqrt (p ! (5 + 6 * i) / p ! 3))) \<and>
         (\<forall>j < length p. j < 9 \<or> j mod 6 \<noteq> 3 \<longrightarrow> finalizeElement nrm p ! j = p ! j) \<and>
         finalizeElement (nrm\<lparr>anasol := None\<rparr>) p = p"
proof -
  have fin: "finalizeElement nrm p = finalize_loop 9 p"
    using assms by (simp add: finalizeElement_def)
  have nth: "finalize_loop 9 p ! j =
       (if 9 \<le> j \<and> j mod 6 = 3 then sqrt (p ! (j - 4) / p ! 3) else p ! j)"
    if "j < length p" for j
    using that by (intro finalize_loop_nth) simp_all
  have idx: "finalizeElement nrm p ! (9 + 6 * i) = sqrt (p ! (5 + 6 * i) / p ! 3)"
    if "9 + 6 * i < length p" for i
  proof -
    have "(9 + 6 * i) mod 6 = 3" by simp
    then show ?thesis using nth [OF that] by (simp add: fin)
  qed
  have other: "finalizeElement nrm p ! j = p ! j" if "j < length p" "j < 9 \<or> j mod 6 \<noteq> 3" for j
    using nth [OF that(1)] that(2) by (auto simp: fin)
  have none: "finalizeElement (nrm\<lparr>anasol := None\<rparr>) p = p"
    by (simp add: finalizeElement_def)
  have len: "length (finalizeElement nrm p) = length p"
    by (simp add: fin finalize_loop_length)
  show ?thesis
    using evalInt_norm_frame [OF assms] idx other none len by blast
qed

lemma sample_evalInt:
  "evalInt_norm (\<lambda>T v. v) sample_norm sample_elmnorm sample_fe (1 / 2, 1 / 2, 0) =
     Inr (True, sample_slots)"
  by code_simp

theorem effectivity_index_witness:
  "evalInt_norm (\<lambda>T v. v) sample_norm sample_elmnorm sample_fe (1 / 2, 1 / 2, 0) =
     Inr (True, sample_slots) \<and>
   sample_slots ! 9 = buf sample_elmnorm ! 9 \<and>
   finalizeElement sample_norm sample_slots ! 9 = sqrt (587 / 136500 / (761 / 34125)) \<and>
   finalizeElement sample_norm sample_slots ! 5 = 587 / 136500 \<and>
   length (finalizeElement sample_norm sample_slots) = 10 \<and>
   finalizeElement (sample_norm\<lparr>anasol := None\<rparr>) sample_slots = sample_slots"
proof -
  have an: "anasol sample_norm = Some (\<lambda>X. [- 1 / 5, - 1 / 10, 0])"
    by (simp add: sample_norm_def newNorm_def)
  have len: "length sample_slots = 10"
    by (simp add: sample_slots_def)
  have p3: "0 < sample_slots ! 3"
    by (simp add: sample_slots_def)
  have p5: "0 \<le> sample_slots ! (5 + 6 * i)" if "9 + 6 * i < length sample_slots" for i
  proof -
    from that len have "i = 0" by arith
    then show ?thesis by (simp add: sample_slots_def)
  qed
  have v3: "sample_slots ! 3 = 761 / 34125" and v5: "sample_slots ! 5 = 587 / 136500"
    by (simp_all add: sample_slots_def)
  from effectivity_index [OF an, of "\<lambda>T v. v" sample_elmnorm sample_fe "(1 / 2, 1 / 2, 0)"
      sample_slots]
  have frame: "\<And>ok q. evalInt_norm (\<lambda>T v. v) sample_norm sample_elmnorm sample_fe
                     (1 / 2, 1 / 2, 0) = Inr (ok, q) \<Longrightarrow>
                   9 + 6 * 0 < length q \<Longrightarrow> q ! (9 + 6 * 0) = buf sample_elmnorm ! (9 + 6 * 0)"
    and flen: "length (finalizeElement sample_norm sample_slots) = length sample_slots"
    and idx: "0 < sample_slots ! 3 \<and>
              (\<forall>i. 9 + 6 * i < length sample_slots \<longrightarrow> 0 \<le> sample_slots ! (5 + 6 * i)) \<Longrightarrow>
              9 + 6 * 0 < length sample_slots \<Longrightarrow>
              finalizeElement sample_norm sample_slots ! (9 + 6 * 0) =
                sqrt (sample_slots ! (5 + 6 * 0) / sample_slots ! 3)"
    and other: "\<And>j. j < length sample_slots \<Longrightarrow> j < 9 \<or> j mod 6 \<noteq> 3 \<Longrightarrow>
                  finalizeElement sample_norm sample_slots ! j = sample_slots ! j"
    and none: "finalizeElement (sample_norm\<lparr>anasol := None\<rparr>) sample_slots = sample_slots"
    by blast+
  have "sample_slots ! 9 = buf sample_elmnorm ! 9"
    using frame [OF sample_evalInt] len by simp
  moreover have "finalizeElement sample_norm sample_slots ! 9 =
                 sqrt (587 / 136500 / (761 / 34125))"
    using idx p3 p5 len v3 v5 by simp
  moreover have "finalizeElement sample_norm sample_slots ! 5 = 587 / 136500"
    using other [of 5] len v5 by simp
  ultimately show ?thesis
    using sample_evalInt flen len none by simp
qed

end
